theory Spec2Isabelle
  imports Complex_Main "HOL-Library.Word"
begin

section \<open>Payload winch motor control: data model\<close>

text \<open>
  The controller runs on one core; the only asynchronous activity is the feedback
  interrupt, which increments \<open>g_fg_pulses\<close>. The embedding follows the second revision
  of the firmware, the one with the slew-rate limiter. The first revision, which ramps
  with blocking sleeps, has the same \<open>set_speed\<close>, \<open>set_direction_cw\<close> and
  \<open>target_pulses_for_meters\<close>, the same early return of \<open>move_meters\<close>, and the same
  wait in its hold; it is not embedded. The conventions:

  \<^item> \<open>float\<close> values are modelled as \<open>real\<close>: comparisons and arithmetic are exact, and
    there is no NaN or infinity;
  \<^item> \<open>uint32_t\<close> is \<open>32 word\<close>, so that subtraction and multiplication wrap;
  \<^item> \<open>absolute_time_t\<close> is an \<open>int\<close> number of microseconds, and
    \<open>absolute_time_diff_us a b\<close> is \<open>b - a\<close>;
  \<^item> each call of \<open>get_absolute_time\<close> and each read of the volatile counter is an
    observation of the environment: the environment says how many microseconds passed
    and how many feedback edges were counted since the previous observation;
  \<^item> writes to the hardware (PWM level, direction pin, interrupt mask) are appended to
    a log kept in the machine state.
\<close>

type_synonym u32 = "32 word"

text \<open>
  A write to the hardware: the compare level of the PWM channel, the level of the
  direction pin, or the mask of the feedback interrupt.
\<close>

datatype hw_write = PwmLevel nat | DirPin bool | FgIrqEnabled bool

text \<open>The global \<open>g_slew\<close>.\<close>

record slew =
  current :: real
  target :: real
  rate :: real
  last_t :: int
  initialized :: bool

text \<open>
  The machine: the two globals of the program, the clock of the board, the number of
  observations made so far (the position in the environment), and the log of writes.
\<close>

record machine =
  g_fg_pulses :: u32
  g_slew :: slew
  clock :: int
  tick :: nat
  writes :: "hw_write list"

text \<open>
  The environment: observation number \<open>i\<close> happens \<open>fst (env i)\<close> microseconds after
  the previous one, and \<open>snd (env i)\<close> rising edges were counted in between.
\<close>

type_synonym env = "nat \<Rightarrow> nat \<times> nat"

definition PWM_WRAP :: nat where
  "PWM_WRAP = 6249"

definition GEAR_RATIO :: real where
  "GEAR_RATIO = 14"

definition FG_PULSES_PER_MOTOR_REV :: u32 where
  "FG_PULSES_PER_MOTOR_REV = 6"

definition DRUM_DIAMETER_M :: real where
  "DRUM_DIAMETER_M = 50 / 1000"

text \<open>The static initialisers of \<open>g_fg_pulses\<close> and \<open>g_slew\<close>.\<close>

definition boot :: machine where
  "boot = \<lparr> g_fg_pulses = 0,
            g_slew = \<lparr> current = 0, target = 0, rate = 200, last_t = 0, initialized = False \<rparr>,
            clock = 0, tick = 0, writes = [] \<rparr>"

subsection \<open>Observations\<close>

definition observe :: "env \<Rightarrow> machine \<Rightarrow> machine" where
  "observe env s =
     s\<lparr> clock := clock s + int (fst (env (tick s))),
        g_fg_pulses := g_fg_pulses s + of_nat (snd (env (tick s))),
        tick := Suc (tick s) \<rparr>"

definition get_absolute_time :: "env \<Rightarrow> machine \<Rightarrow> int \<times> machine" where
  "get_absolute_time env s = (let s' = observe env s in (clock s', s'))"

definition read_fg_pulses :: "env \<Rightarrow> machine \<Rightarrow> u32 \<times> machine" where
  "read_fg_pulses env s = (let s' = observe env s in (g_fg_pulses s', s'))"

text \<open>
  \<open>sleep_ms\<close> blocks for at least the requested time; what the environment adds on top
  (and the edges counted meanwhile) is one observation.
\<close>

definition sleep_ms :: "nat \<Rightarrow> env \<Rightarrow> machine \<Rightarrow> machine" where
  "sleep_ms ms env s = observe env (s\<lparr> clock := clock s + int ms * 1000 \<rparr>)"

text \<open>The counter reset, with the feedback interrupt masked around the store.\<close>

definition reset_fg_pulses :: "machine \<Rightarrow> machine" where
  "reset_fg_pulses s =
     s\<lparr> g_fg_pulses := 0, writes := writes s @ [FgIrqEnabled False, FgIrqEnabled True] \<rparr>"

subsection \<open>Conversion of a float to \<open>uint32_t\<close>\<close>

text \<open>
  The cast truncates towards zero. Its result is defined only when the truncated value
  fits the target type; \<open>None\<close> stands for the undefined cases.
\<close>

definition f2u32 :: "real \<Rightarrow> u32 option" where
  "f2u32 x = (if - 1 < x \<and> x < 2 ^ 32
              then Some (word_of_int (if 0 \<le> x then \<lfloor>x\<rfloor> else \<lceil>x\<rceil>))
              else None)"

section \<open>Distance to pulses\<close>

text \<open>\<open>M_PI\<close> is the circle constant.\<close>

definition drum_circumference_m :: real where
  "drum_circumference_m = pi * DRUM_DIAMETER_M"

definition pulses_per_output_rev :: real where
  "pulses_per_output_rev = GEAR_RATIO * real (unat FG_PULSES_PER_MOTOR_REV)"

definition pulses_per_meter :: real where
  "pulses_per_meter = pulses_per_output_rev / drum_circumference_m"

text \<open>
  The body of \<open>target_pulses_for_meters\<close> at a given value of its local constant
  \<open>pulses_per_meter\<close>.
\<close>

definition pulses_at :: "real \<Rightarrow> real \<Rightarrow> u32 option" where
  "pulses_at ppm meters = (if meters \<le> 0 then Some 0 else f2u32 (meters * ppm + 1 / 2))"

definition target_pulses_for_meters :: "real \<Rightarrow> u32 option" where
  "target_pulses_for_meters meters = pulses_at pulses_per_meter meters"

section \<open>PWM output and direction\<close>

text \<open>
  \<open>set_speed\<close> clamps the percentage and writes the compare level. The clamped value
  lies in \<open>[0, 100]\<close>, so the level lies in \<open>[0, PWM_WRAP]\<close> and the cast is defined.
\<close>

definition duty_level :: "real \<Rightarrow> nat" where
  "duty_level percent =
     (let percent = (if percent < 0 then 0 else percent);
          percent = (if percent > 100 then 100 else percent)
      in nat \<lfloor>percent / 100 * real PWM_WRAP\<rfloor>)"

definition set_speed :: "real \<Rightarrow> machine \<Rightarrow> machine" where
  "set_speed percent s = s\<lparr> writes := writes s @ [PwmLevel (duty_level percent)] \<rparr>"

text \<open>Wiring convention: LOW = CW, HIGH = CCW; the log records the level of the pin.\<close>

definition set_direction_cw :: "bool \<Rightarrow> machine \<Rightarrow> machine" where
  "set_direction_cw cw s = s\<lparr> writes := writes s @ [DirPin (\<not> cw)] \<rparr>"

section \<open>Slew rate limiter\<close>

definition slew_init :: "real \<Rightarrow> env \<Rightarrow> machine \<Rightarrow> machine" where
  "slew_init start_percent env s =
     (let (now_t, s1) = get_absolute_time env s;
          s2 = s1\<lparr> g_slew := (g_slew s1)\<lparr> current := start_percent, target := start_percent,
                                          last_t := now_t, initialized := True \<rparr> \<rparr>
      in set_speed start_percent s2)"

definition slew_set_target :: "real \<Rightarrow> real \<Rightarrow> env \<Rightarrow> machine \<Rightarrow> machine" where
  "slew_set_target target_percent rate_percent_per_sec env s =
     (let s1 = (if \<not> initialized (g_slew s) then slew_init 0 env s else s);
          target_percent = (if target_percent < 0 then 0 else target_percent);
          target_percent = (if target_percent > 100 then 100 else target_percent)
      in s1\<lparr> g_slew := (g_slew s1)\<lparr> target := target_percent,
                  rate := (if rate_percent_per_sec \<le> 0 then 1 else rate_percent_per_sec) \<rparr> \<rparr>)"

definition slew_update :: "env \<Rightarrow> machine \<Rightarrow> machine" where
  "slew_update env s =
     (let s1 = (if \<not> initialized (g_slew s) then slew_init 0 env s else s);
          (now_t, s2) = get_absolute_time env s1;
          dt_us = now_t - last_t (g_slew s2)
      in if dt_us \<le> 0 then s2
         else
           let s3 = s2\<lparr> g_slew := (g_slew s2)\<lparr> last_t := now_t \<rparr> \<rparr>;
               dt_s = real_of_int dt_us / 1000000;
               max_step = rate (g_slew s3) * dt_s;
               error = target (g_slew s3) - current (g_slew s3);
               s4 = (if \<bar>error\<bar> \<le> max_step
                     then s3\<lparr> g_slew := (g_slew s3)\<lparr> current := target (g_slew s3) \<rparr> \<rparr>
                     else s3\<lparr> g_slew := (g_slew s3)\<lparr> current := current (g_slew s3)
                              + (if error > 0 then max_step else - max_step) \<rparr> \<rparr>)
           in set_speed (current (g_slew s4)) s4)"

definition slew_at_target :: "real \<Rightarrow> machine \<Rightarrow> bool" where
  "slew_at_target eps s = (\<bar>current (g_slew s) - target (g_slew s)\<bar> \<le> eps)"

section \<open>Braking\<close>

text \<open>
  The settle loop of \<open>brake_to_stop\<close>. It runs until the clock says that the settle
  time has passed, so the model gives it a budget of iterations: \<open>None\<close> means that the
  budget ran out before the loop ended.
\<close>

fun brake_wait :: "nat \<Rightarrow> env \<Rightarrow> int \<Rightarrow> int \<Rightarrow> machine \<Rightarrow> machine option" where
  "brake_wait 0 env t0 settle_ms s = None"
| "brake_wait (Suc n) env t0 settle_ms s =
     (let (t, s1) = get_absolute_time env s
      in if t - t0 < settle_ms * 1000
         then brake_wait n env t0 settle_ms (slew_update env s1)
         else Some s1)"

definition brake_to_stop :: "nat \<Rightarrow> env \<Rightarrow> int \<Rightarrow> machine \<Rightarrow> machine option" where
  "brake_to_stop n env settle_ms s =
     (let s1 = slew_set_target 0 400 env s;
          (t0, s2) = get_absolute_time env s1
      in brake_wait n env t0 settle_ms s2)"

section \<open>Move controller\<close>

text \<open>
  The values \<open>move_meters\<close> fixes before its loop (\<open>target_pulses\<close> is the local
  \<open>target\<close>), and the locals the loop updates (\<open>start_t\<close> is the local \<open>t0\<close>).
\<close>

record move_frame =
  target_pulses :: u32
  pad_pulses :: u32
  cruise_percent :: real
  padding_speed :: real
  timeout_ms :: u32
  stall_window_us :: int

record move_vars =
  last_speed :: real
  start_t :: int
  stall_ref_time :: int
  stall_ref_pulses :: u32

text \<open>If the move is too short for padding, the padding is half of the move.\<close>

definition collapse_pad :: "u32 \<Rightarrow> u32 \<Rightarrow> u32" where
  "collapse_pad tgt pad = (if pad * 2 \<ge> tgt then tgt div 2 else pad)"

definition min_pulses_for :: "real \<Rightarrow> u32" where
  "min_pulses_for cmd =
     (if cmd < 15 then 0 else if cmd < 40 then 1 else if cmd < 70 then 2 else 3)"

definition remaining_pulses :: "u32 \<Rightarrow> u32 \<Rightarrow> u32" where
  "remaining_pulses now tgt = (if now < tgt then tgt - now else 0)"

definition desired_speed :: "move_frame \<Rightarrow> u32 \<Rightarrow> real" where
  "desired_speed p now =
     (let remaining = remaining_pulses now (target_pulses p)
      in if now < pad_pulses p then padding_speed p
         else if remaining < pad_pulses p then padding_speed p
         else cruise_percent p)"

text \<open>
  One pass through the body of the loop ends in one of four ways: the loop condition
  fails, the stall check returns, the timeout check returns, or the pass reaches the end
  of the body.
\<close>

datatype iter_result =
    LoopExit machine
  | StallAbort machine
  | TimeoutAbort machine
  | Continue move_vars machine

text \<open>The timeout check and the speed selection, which follow the stall check.\<close>

definition timeout_and_speed :: "env \<Rightarrow> move_frame \<Rightarrow> move_vars \<Rightarrow> u32 \<Rightarrow> machine \<Rightarrow> iter_result" where
  "timeout_and_speed env p v now s =
     (let (t, s1) = get_absolute_time env s
      in if t - start_t v > uint (timeout_ms p) * 1000 then TimeoutAbort s1
         else
           let desired = desired_speed p now
           in if \<bar>desired - last_speed v\<bar> > 1 / 100
              then Continue (v\<lparr> last_speed := desired \<rparr>) (slew_set_target desired 200 env s1)
              else Continue v s1)"

definition move_iter :: "env \<Rightarrow> move_frame \<Rightarrow> move_vars \<Rightarrow> machine \<Rightarrow> iter_result" where
  "move_iter env p v s =
     (let (c, s1) = read_fg_pulses env s
      in if \<not> c < target_pulses p then LoopExit s1
         else
           let s2 = slew_update env s1;
               (now, s3) = read_fg_pulses env s2;
               (t, s4) = get_absolute_time env s3
           in if t - stall_ref_time v > stall_window_us p
              then
                let (c2, s5) = read_fg_pulses env s4;
                    dp = c2 - stall_ref_pulses v;
                    cmd = target (g_slew s5);
                    min_pulses = min_pulses_for cmd
                in if min_pulses > 0 \<and> dp < min_pulses then StallAbort s5
                   else
                     let (c3, s6) = read_fg_pulses env s5;
                         (t2, s7) = get_absolute_time env s6
                     in timeout_and_speed env p
                          (v\<lparr> stall_ref_pulses := c3, stall_ref_time := t2 \<rparr>) now s7
              else timeout_and_speed env p v now s4)"

text \<open>
  The loop. Both aborts brake and return \<open>false\<close>; leaving the loop brakes and returns
  \<open>true\<close>. \<open>None\<close>: the budget of iterations ran out.
\<close>

fun move_loop :: "nat \<Rightarrow> env \<Rightarrow> move_frame \<Rightarrow> move_vars \<Rightarrow> machine \<Rightarrow> (bool \<times> machine) option" where
  "move_loop 0 env p v s = None"
| "move_loop (Suc n) env p v s =
     (case move_iter env p v s of
        LoopExit s' \<Rightarrow> map_option (Pair True) (brake_to_stop n env 300 s')
      | StallAbort s' \<Rightarrow> map_option (Pair False) (brake_to_stop n env 300 s')
      | TimeoutAbort s' \<Rightarrow> map_option (Pair False) (brake_to_stop n env 300 s')
      | Continue v' s' \<Rightarrow> move_loop n env p v' s')"

text \<open>
  What \<open>move_meters\<close> does between the two conversions and the loop: it resets the
  counter, sets the direction, starts the ramp and takes the reference times.
\<close>

definition move_setup ::
  "env \<Rightarrow> bool \<Rightarrow> real \<Rightarrow> u32 \<Rightarrow> real \<Rightarrow> int \<Rightarrow> u32 \<Rightarrow> u32 \<Rightarrow> machine
     \<Rightarrow> move_frame \<times> move_vars \<times> machine" where
  "move_setup env cw cruise tmo_ms pad_speed window_us tgt pad0 s =
     (let pad = collapse_pad tgt pad0;
          s1 = reset_fg_pulses s;
          s2 = set_direction_cw cw s1;
          start_speed = (if pad > 0 then pad_speed else cruise);
          s3 = slew_set_target start_speed 200 env s2;
          (t0, s4) = get_absolute_time env s3;
          (ref_time, s5) = get_absolute_time env s4;
          (ref_pulses, s6) = read_fg_pulses env s5
      in (\<lparr> target_pulses = tgt, pad_pulses = pad, cruise_percent = cruise,
            padding_speed = pad_speed, timeout_ms = tmo_ms, stall_window_us = window_us \<rparr>,
          \<lparr> last_speed = start_speed, start_t = t0, stall_ref_time = ref_time,
            stall_ref_pulses = ref_pulses \<rparr>,
          s6))"

text \<open>
  \<open>move_meters\<close>. The result is \<open>None\<close> when a distance does not convert to a pulse
  count or when the budget of iterations ran out.
\<close>

definition move_meters ::
  "nat \<Rightarrow> env \<Rightarrow> bool \<Rightarrow> real \<Rightarrow> real \<Rightarrow> u32 \<Rightarrow> real \<Rightarrow> real \<Rightarrow> int \<Rightarrow> machine
     \<Rightarrow> (bool \<times> machine) option" where
  "move_meters n env cw meters cruise tmo_ms padding_m pad_speed window_us s =
     (case target_pulses_for_meters meters of
        None \<Rightarrow> None
      | Some tgt \<Rightarrow>
          if tgt = 0 then Some (True, s)
          else
            (case target_pulses_for_meters padding_m of
               None \<Rightarrow> None
             | Some pad0 \<Rightarrow>
                 let (p, v, s6) = move_setup env cw cruise tmo_ms pad_speed window_us tgt pad0 s
                 in move_loop n env p v s6))"

text \<open>The public operations, with the default padding and stall window.\<close>

definition unwind_payload_m :: "nat \<Rightarrow> env \<Rightarrow> real \<Rightarrow> real \<Rightarrow> machine \<Rightarrow> (bool \<times> machine) option" where
  "unwind_payload_m n env meters speed_percent s =
     move_meters n env False meters speed_percent 60000 (2 / 10) 50 500000 s"

definition wind_payload_m :: "nat \<Rightarrow> env \<Rightarrow> real \<Rightarrow> real \<Rightarrow> machine \<Rightarrow> (bool \<times> machine) option" where
  "wind_payload_m n env meters speed_percent s =
     move_meters n env True meters speed_percent 60000 (2 / 10) 50 500000 s"

section \<open>Hold controller\<close>





section \<open>Sequences of calls on the speed commander\<close>




text \<open>
  The assumption under which the waiting loops end: every observation of the clock or
  of the counter takes at least one microsecond.
\<close>

definition clock_ticks :: "env \<Rightarrow> bool" where
  "clock_ticks env = (\<forall>i. 0 < fst (env i))"

section \<open>Example states\<close>

text \<open>A commander that has reached its goal of 50 percent.\<close>

definition at50 :: machine where
  "at50 = \<lparr> g_fg_pulses = 0,
            g_slew = \<lparr> current = 50, target = 50, rate = 200, last_t = 0, initialized = True \<rparr>,
            clock = 0, tick = 0, writes = [PwmLevel 3124] \<rparr>"

text \<open>A dead feedback line: 0.2 seconds between observations, no edges.\<close>

definition no_pulses :: env where "no_pulses = (\<lambda>i. (200000, 0))"

text \<open>A crawling drum: 20 seconds between observations, one edge each.\<close>

definition slow_pulses :: env where "slow_pulses = (\<lambda>i. (20000000, 1))"


text \<open>Eighty edges before the first pass of the loop, a millisecond between observations.\<close>

definition burst :: env where "burst = (\<lambda>i. (1000, if i = 4 then 80 else 0))"

text \<open>The move of \<open>main\<close>, 0.6 meters at full speed: its frame, and the loop variables
  and machine states on entry to the loop and at the abort, for the dead line (also at
  the return) and for the crawling drum.\<close>

definition frame_06 :: move_frame where
  "frame_06 = \<lparr> target_pulses = 321, pad_pulses = 107, cruise_percent = 100,
                padding_speed = 50, timeout_ms = 60000, stall_window_us = 500000 \<rparr>"

definition vars_quiet :: move_vars where
  "vars_quiet = \<lparr> last_speed = 50, start_t = 400000, stall_ref_time = 600000,
                  stall_ref_pulses = 0 \<rparr>"

definition entry_quiet :: machine where
  "entry_quiet = \<lparr> g_fg_pulses = 0,
       g_slew = \<lparr> current = 0, target = 50, rate = 200, last_t = 200000, initialized = True \<rparr>,
       clock = 800000, tick = 4,
       writes = [FgIrqEnabled False, FgIrqEnabled True, DirPin True, PwmLevel 0] \<rparr>"

definition stalled_quiet :: machine where
  "stalled_quiet = \<lparr> g_fg_pulses = 0,
       g_slew = \<lparr> current = 50, target = 50, rate = 200, last_t = 1200000, initialized = True \<rparr>,
       clock = 1800000, tick = 9,
       writes = [FgIrqEnabled False, FgIrqEnabled True, DirPin True, PwmLevel 0, PwmLevel 3124] \<rparr>"


definition vars_slow :: move_vars where
  "vars_slow = \<lparr> last_speed = 50, start_t = 40000000, stall_ref_time = 60000000,
                 stall_ref_pulses = 4 \<rparr>"

definition entry_slow :: machine where
  "entry_slow = \<lparr> g_fg_pulses = 4,
       g_slew = \<lparr> current = 0, target = 50, rate = 200, last_t = 20000000, initialized = True \<rparr>,
       clock = 80000000, tick = 4,
       writes = [FgIrqEnabled False, FgIrqEnabled True, DirPin True, PwmLevel 0] \<rparr>"

definition timed_out_slow :: machine where
  "timed_out_slow = \<lparr> g_fg_pulses = 12,
       g_slew = \<lparr> current = 50, target = 50, rate = 200, last_t = 120000000, initialized = True \<rparr>,
       clock = 240000000, tick = 12,
       writes = [FgIrqEnabled False, FgIrqEnabled True, DirPin True, PwmLevel 0, PwmLevel 3124] \<rparr>"



text \<open>A move of 0.3 meters at full speed, shorter than twice the padding: its frame, and
  the loop variables and machine states before and after the pass that reads 80 pulses.\<close>

definition frame_03 :: move_frame where
  "frame_03 = \<lparr> target_pulses = 160, pad_pulses = 80, cruise_percent = 100,
                padding_speed = 50, timeout_ms = 60000, stall_window_us = 500000 \<rparr>"

definition vars_burst :: move_vars where
  "vars_burst = \<lparr> last_speed = 50, start_t = 2000, stall_ref_time = 3000, stall_ref_pulses = 0 \<rparr>"

definition entry_burst :: machine where
  "entry_burst = \<lparr> g_fg_pulses = 0,
       g_slew = \<lparr> current = 0, target = 50, rate = 200, last_t = 1000, initialized = True \<rparr>,
       clock = 4000, tick = 4,
       writes = [FgIrqEnabled False, FgIrqEnabled True, DirPin True, PwmLevel 0] \<rparr>"

definition vars_mid :: move_vars where
  "vars_mid = \<lparr> last_speed = 100, start_t = 2000, stall_ref_time = 3000, stall_ref_pulses = 0 \<rparr>"

definition cruising_mid :: machine where
  "cruising_mid = \<lparr> g_fg_pulses = 80,
       g_slew = \<lparr> current = 1, target = 100, rate = 200, last_t = 6000, initialized = True \<rparr>,
       clock = 9000, tick = 9,
       writes = [FgIrqEnabled False, FgIrqEnabled True, DirPin True, PwmLevel 0, PwmLevel 62] \<rparr>"

section \<open>Properties\<close>

subsection \<open>Frame lemmas\<close>

lemma observe_fields [simp]:
  "g_slew (observe env s) = g_slew s"
  "writes (observe env s) = writes s"
  "tick (observe env s) = Suc (tick s)"
  "clock (observe env s) = clock s + int (fst (env (tick s)))"
  "g_fg_pulses (observe env s) = g_fg_pulses s + of_nat (snd (env (tick s)))"
  by (simp_all add: observe_def)

lemma set_speed_fields [simp]:
  "g_slew (set_speed x s) = g_slew s"
  "writes (set_speed x s) = writes s @ [PwmLevel (duty_level x)]"
  "tick (set_speed x s) = tick s"
  "clock (set_speed x s) = clock s"
  "g_fg_pulses (set_speed x s) = g_fg_pulses s"
  by (simp_all add: set_speed_def)

lemma slew_init_fields [simp]:
  "g_slew (slew_init x env s) =
     (g_slew s)\<lparr> current := x, target := x, last_t := clock (observe env s), initialized := True \<rparr>"
  "writes (slew_init x env s) = writes s @ [PwmLevel (duty_level x)]"
  "tick (slew_init x env s) = Suc (tick s)"
  "clock (slew_init x env s) = clock (observe env s)"
  "g_fg_pulses (slew_init x env s) = g_fg_pulses (observe env s)"
  by (simp_all add: slew_init_def get_absolute_time_def Let_def)

lemma slew_set_target_fields [simp]:
  "initialized (g_slew (slew_set_target x r env s))"
  "target (g_slew (slew_set_target x r env s)) = (if x < 0 then 0 else if x > 100 then 100 else x)"
  "rate (g_slew (slew_set_target x r env s)) = (if r \<le> 0 then 1 else r)"
  "current (g_slew (slew_set_target x r env s)) = (if initialized (g_slew s) then current (g_slew s) else 0)"
  "last_t (g_slew (slew_set_target x r env s))
     = (if initialized (g_slew s) then last_t (g_slew s) else clock (observe env s))"
  "clock (slew_set_target x r env s) = (if initialized (g_slew s) then clock s else clock (observe env s))"
  "tick (slew_set_target x r env s) = (if initialized (g_slew s) then tick s else Suc (tick s))"
  "g_fg_pulses (slew_set_target x r env s)
     = (if initialized (g_slew s) then g_fg_pulses s else g_fg_pulses (observe env s))"
  "writes (slew_set_target x r env s)
     = (if initialized (g_slew s) then writes s else writes s @ [PwmLevel (duty_level 0)])"
  by (simp_all add: slew_set_target_def Let_def)

lemma slew_update_initialized:
  assumes "initialized (g_slew s)"
  shows "slew_update env s =
     (let now_t = clock s + int (fst (env (tick s)));
          dt = real_of_int (now_t - last_t (g_slew s)) / 1000000;
          step = rate (g_slew s) * dt;
          err = target (g_slew s) - current (g_slew s);
          c' = (if \<bar>err\<bar> \<le> step then target (g_slew s)
                else current (g_slew s) + (if err > 0 then step else - step))
      in if now_t \<le> last_t (g_slew s) then observe env s
         else set_speed c' ((observe env s)\<lparr> g_slew := (g_slew s)\<lparr> last_t := now_t, current := c' \<rparr> \<rparr>))"
  using assms by (simp add: slew_update_def get_absolute_time_def Let_def)

lemma slew_update_uninitialized:
  assumes "\<not> initialized (g_slew s)"
  shows "slew_update env s = slew_update env (slew_init 0 env s)"
  using assms by (simp add: slew_update_def)

lemma slew_update_frame [simp]:
  "initialized (g_slew (slew_update env s))"
  "rate (g_slew (slew_update env s)) = rate (g_slew s)"
  "g_fg_pulses (slew_update env s) =
     (if initialized (g_slew s) then g_fg_pulses (observe env s)
      else g_fg_pulses (observe env (observe env s)))"
  "clock (slew_update env s) =
     (if initialized (g_slew s) then clock (observe env s) else clock (observe env (observe env s)))"
  "tick (slew_update env s) = (if initialized (g_slew s) then Suc (tick s) else Suc (Suc (tick s)))"
  by (cases "initialized (g_slew s)";
      simp add: slew_update_initialized slew_update_uninitialized Let_def)+

lemma slew_update_target [simp]:
  "target (g_slew (slew_update env s)) = (if initialized (g_slew s) then target (g_slew s) else 0)"
  by (cases "initialized (g_slew s)";
      simp add: slew_update_initialized slew_update_uninitialized Let_def)

lemma sleep_ms_fields [simp]:
  "g_slew (sleep_ms ms env s) = g_slew s"
  "writes (sleep_ms ms env s) = writes s"
  "tick (sleep_ms ms env s) = Suc (tick s)"
  "clock (sleep_ms ms env s) = clock s + int ms * 1000 + int (fst (env (tick s)))"
  "g_fg_pulses (sleep_ms ms env s) = g_fg_pulses s + of_nat (snd (env (tick s)))"
  by (simp_all add: sleep_ms_def)

lemma reset_fg_pulses_fields [simp]:
  "g_slew (reset_fg_pulses s) = g_slew s"
  "tick (reset_fg_pulses s) = tick s"
  "clock (reset_fg_pulses s) = clock s"
  "g_fg_pulses (reset_fg_pulses s) = 0"
  by (simp_all add: reset_fg_pulses_def)

subsection \<open>Bounds on the circle constant\<close>

lemma sin_poly7: "(\<Sum>m<7. sin_coeff m * x ^ m) = x - x ^ 3 / 6 + x ^ 5 / 120" for x :: real
proof -
  have "(\<Sum>m<Suc (Suc (Suc (Suc (Suc (Suc (Suc 0)))))). sin_coeff m * x ^ m)
          = x - x ^ 3 / 6 + x ^ 5 / 120"
    by (simp add: sin_coeff_Suc cos_coeff_Suc power3_eq_cube eval_nat_numeral)
  then show ?thesis by (simp add: eval_nat_numeral)
qed

lemma cubic_mono:
  fixes a x :: real
  assumes "0 \<le> a" "a \<le> x" "x \<le> 1"
  shows "a - a ^ 3 / 6 \<le> x - x ^ 3 / 6"
proof -
  have "x ^ 3 - a ^ 3 = (x - a) * (x ^ 2 + x * a + a ^ 2)"
    by (simp add: power2_eq_square power3_eq_cube algebra_simps)
  moreover have "x ^ 2 \<le> 1" "a ^ 2 \<le> 1" "x * a \<le> 1"
    using assms by (simp_all add: power_le_one mult_le_one)
  then have "x ^ 2 + x * a + a ^ 2 \<le> 6" by simp
  then have "(x - a) * (x ^ 2 + x * a + a ^ 2) \<le> (x - a) * 6"
    using assms by (intro mult_left_mono) simp_all
  ultimately show ?thesis by simp
qed

lemma pi_bounds: "3141 / 1000 < pi \<and> pi < 31446 / 10000"
proof -
  define x :: real where "x = pi / 6"
  have s: "sin x = 1 / 2" unfolding x_def by (rule sin_30)
  have x0: "0 \<le> x" and x1: "x \<le> 1"
    using pi_ge_zero pi_less_4 by (simp_all add: x_def)
  have m: "\<bar>sin x - (\<Sum>m<7. sin_coeff m * x ^ m)\<bar> \<le> inverse (fact 7) * \<bar>x\<bar> ^ 7"
    by (rule Maclaurin_sin_bound)
  have f: "inverse (fact 7 :: real) * \<bar>x\<bar> ^ 7 = x ^ 7 / 5040"
    using x0 by (simp add: fact_numeral)
  have b: "\<bar>1 / 2 - (x - x ^ 3 / 6 + x ^ 5 / 120)\<bar> \<le> x ^ 7 / 5040"
    using m unfolding s sin_poly7 f .
  have p7: "x ^ 7 \<le> x ^ 5"
    using x0 x1 by (intro power_decreasing) simp_all
  have p5: "0 \<le> x ^ 5" using x0 by simp
  have up: "x < 5241 / 10000"
  proof (rule ccontr)
    assume "\<not> x < 5241 / 10000"
    then have "5241 / 10000 \<le> x" by simp
    then have "(5241 / 10000 :: real) - (5241 / 10000) ^ 3 / 6 \<le> x - x ^ 3 / 6"
      using x1 by (intro cubic_mono) simp_all
    moreover have "x - x ^ 3 / 6 + x ^ 5 / 120 - x ^ 7 / 5040 \<le> 1 / 2"
      using b by linarith
    ultimately show False using p7 p5 by (simp add: power3_eq_cube)
  qed
  have lo: "5235 / 10000 < x"
  proof (rule ccontr)
    assume "\<not> 5235 / 10000 < x"
    then have le: "x \<le> 5235 / 10000" by simp
    then have "x - x ^ 3 / 6 \<le> (5235 / 10000 :: real) - (5235 / 10000) ^ 3 / 6"
      using x0 by (intro cubic_mono) simp_all
    moreover have "x ^ 5 \<le> (5235 / 10000) ^ 5" and "x ^ 7 \<le> (5235 / 10000) ^ 7"
      using x0 le by (simp_all add: power_mono)
    moreover have "1 / 2 \<le> x - x ^ 3 / 6 + x ^ 5 / 120 + x ^ 7 / 5040"
      using b by linarith
    ultimately show False by (simp add: power3_eq_cube eval_nat_numeral)
  qed
  show ?thesis using up lo by (simp add: x_def)
qed

subsection \<open>Distance to pulses\<close>


lemma pulses_per_meter_eq: "pulses_per_meter = 1680 / pi"
  by (simp add: pulses_per_meter_def pulses_per_output_rev_def drum_circumference_m_def
      GEAR_RATIO_def FG_PULSES_PER_MOTOR_REV_def DRUM_DIAMETER_M_def)




lemma f2u32_floor:
  assumes "real_of_int k \<le> x" and "x < real_of_int k + 1" and "0 \<le> k" and "k < 2 ^ 32"
  shows "f2u32 x = Some (word_of_int k)"
proof -
  have "\<lfloor>x\<rfloor> = k" using assms(1,2) by (intro floor_unique) simp_all
  moreover have "0 \<le> x" using assms(1,3) by simp
  moreover have "x < 2 ^ 32"
  proof -
    have "k + 1 \<le> 2 ^ 32" using assms(4) by simp
    then have "real_of_int (k + 1) \<le> real_of_int (2 ^ 32)"
      by (simp only: of_int_le_iff)
    then show ?thesis using assms(2) by simp
  qed
  ultimately show ?thesis by (simp add: f2u32_def)
qed

lemma target_pulses_06: "target_pulses_for_meters (6 / 10) = Some 321"
proof -
  have p: "3141 / 1000 < pi" "pi < 31446 / 10000" "0 < pi"
    using pi_bounds by simp_all
  have "f2u32 (6 / 10 * (1680 / pi) + 1 / 2) = Some (word_of_int 321)"
    using p by (intro f2u32_floor) (simp_all add: field_simps)
  then show ?thesis
    by (simp add: target_pulses_for_meters_def pulses_at_def pulses_per_meter_eq)
qed

lemma target_pulses_02: "target_pulses_for_meters (2 / 10) = Some 107"
proof -
  have p: "3141 / 1000 < pi" "pi < 31446 / 10000" "0 < pi"
    using pi_bounds by simp_all
  have "f2u32 (2 / 10 * (1680 / pi) + 1 / 2) = Some (word_of_int 107)"
    using p by (intro f2u32_floor) (simp_all add: field_simps)
  then show ?thesis
    by (simp add: target_pulses_for_meters_def pulses_at_def pulses_per_meter_eq)
qed

lemma target_pulses_03: "target_pulses_for_meters (3 / 10) = Some 160"
proof -
  have p: "3141 / 1000 < pi" "pi < 31446 / 10000" "0 < pi"
    using pi_bounds by simp_all
  have "f2u32 (3 / 10 * (1680 / pi) + 1 / 2) = Some (word_of_int 160)"
    using p by (intro f2u32_floor) (simp_all add: field_simps)
  then show ?thesis
    by (simp add: target_pulses_for_meters_def pulses_at_def pulses_per_meter_eq)
qed




subsection \<open>Speed commander\<close>











text \<open>
  Claim C8 as stated fails: when the clock has not advanced since the last update, the
  second of two updates returns before the write, and the log of writes stays as it was.
\<close>

theorem slew_update_skips_write:
  "writes (slew_update (\<lambda>i. (0, 0)) (slew_update (\<lambda>i. (0, 0)) boot))
     = writes (slew_update (\<lambda>i. (0, 0)) boot)"
  by (simp add: slew_update_initialized slew_update_uninitialized Let_def boot_def)

text \<open>
  Claim C8, amended. Let \<open>s1\<close> be the state in which the update reads the clock: the
  state it was called in, or, before the first call on the commander, that state after
  \<open>slew_init\<close>, which writes the duty cycle of zero. An update that reads a time past
  the time of the last update writes the duty cycle of the new ramp value, also when that
  value has not changed. An update that finds no time elapsed writes nothing more and
  leaves the commander as it was.
\<close>

theorem slew_update_writes:
  "let s1 = (if initialized (g_slew s) then s else slew_init 0 env s);
       now_t = clock s1 + int (fst (env (tick s1)));
       s' = slew_update env s
   in writes s1 = (if initialized (g_slew s) then writes s else writes s @ [PwmLevel 0]) \<and>
      (last_t (g_slew s1) < now_t \<longrightarrow>
         writes s' = writes s1 @ [PwmLevel (duty_level (current (g_slew s')))]) \<and>
      (now_t \<le> last_t (g_slew s1) \<longrightarrow>
         writes s' = writes s1 \<and> g_slew s' = g_slew s1)"
proof (cases "initialized (g_slew s)")
  case True
  then show ?thesis
    by (simp add: slew_update_initialized Let_def)
next
  case False
  have i: "initialized (g_slew (slew_init 0 env s))" by simp
  have z: "duty_level 0 = 0" by (simp add: duty_level_def)
  show ?thesis
    using False z
    by (simp add: slew_update_uninitialized slew_update_initialized [OF i] Let_def)
qed

text \<open>
  Claim C8, instances: a commander resting on its goal writes the same level again
  after a millisecond, and writes nothing when no time has passed.
\<close>

theorem slew_update_writes_witness:
  "current (g_slew (slew_update (\<lambda>i. (1000, 0)) at50)) = current (g_slew at50) \<and>
   writes (slew_update (\<lambda>i. (1000, 0)) at50) = [PwmLevel 3124, PwmLevel 3124] \<and>
   writes (slew_update (\<lambda>i. (0, 0)) at50) = [PwmLevel 3124]"
proof -
  have c: "current (g_slew (slew_update (\<lambda>i. (1000, 0)) at50)) = 50"
    by (simp add: slew_update_initialized Let_def at50_def)
  have d: "duty_level 50 = 3124"
    by (simp add: duty_level_def PWM_WRAP_def)
  have i: "initialized (g_slew at50)" "last_t (g_slew at50) = 0" "clock at50 = 0"
    "writes at50 = [PwmLevel 3124]" "current (g_slew at50) = 50"
    by (simp_all add: at50_def)
  show ?thesis
    using slew_update_writes [of at50 "\<lambda>i. (1000, 0)"] slew_update_writes [of at50 "\<lambda>i. (0, 0)"]
      c d i
    by (simp add: Let_def)
qed

subsection \<open>A move of no distance, and the remaining distance\<close>

text \<open>
  Claim C9. For a distance of zero or less the target is 0 pulses and \<open>move_meters\<close>
  returns \<open>true\<close> at once, in the state it was called in: the counter is not reset,
  the direction pin is not written, the speed commander is not touched, and no
  observation of the clock or of the counter is made.
\<close>

theorem move_nonpositive_distance:
  "meters \<le> 0 \<Longrightarrow>
     target_pulses_for_meters meters = Some 0 \<and>
     move_meters n env cw meters cruise tmo_ms padding_m pad_speed window_us s = Some (True, s)"
  by (simp add: move_meters_def target_pulses_for_meters_def pulses_at_def)

text \<open>
  Claim C9, instance: a move of minus one meter from the boot state.
\<close>

theorem move_nonpositive_distance_witness:
  "(- 1 :: real) \<le> 0 \<and> target_pulses_for_meters (- 1) = Some 0 \<and>
   move_meters 0 (\<lambda>i. (1, 1)) True (- 1) 100 60000 (2 / 10) 50 500000 boot = Some (True, boot)"
  using move_nonpositive_distance [of "- 1" 0 "\<lambda>i. (1, 1)" True 100 60000 "2 / 10" 50 500000 boot]
  by simp



subsection \<open>Braking ends\<close>

lemma clock_ticksD: "clock_ticks env \<Longrightarrow> 0 < fst (env i)"
  by (simp add: clock_ticks_def)

lemma clock_slew_update_less:
  assumes "clock_ticks env"
  shows "clock s < clock (slew_update env s)"
  using clock_ticksD [OF assms, of "tick s"] by simp

lemma brake_wait_ends:
  assumes tk: "clock_ticks env"
  shows "nat (t0 + ms * 1000 - clock s) < n \<Longrightarrow> initialized (g_slew s) \<Longrightarrow>
     \<exists>s'. brake_wait n env t0 ms s = Some s' \<and> target (g_slew s') = target (g_slew s)
          \<and> initialized (g_slew s') \<and> t0 + ms * 1000 \<le> clock s'"
proof (induction n arbitrary: s)
  case 0
  then show ?case by simp
next
  case (Suc n)
  let ?s1 = "observe env s"
  have e: "0 < fst (env (tick s))" by (rule clock_ticksD [OF tk])
  show ?case
  proof (cases "clock ?s1 - t0 < ms * 1000")
    case True
    let ?s2 = "slew_update env ?s1"
    have "clock ?s1 < clock ?s2" by (rule clock_slew_update_less [OF tk])
    then have "nat (t0 + ms * 1000 - clock ?s2) < n"
      using Suc.prems(1) True e by simp
    moreover have "initialized (g_slew ?s2)" by simp
    ultimately obtain s' where "brake_wait n env t0 ms ?s2 = Some s'"
      and "target (g_slew s') = target (g_slew ?s2)" and "initialized (g_slew s')"
      and "t0 + ms * 1000 \<le> clock s'"
      using Suc.IH [of ?s2] by blast
    then show ?thesis
      using True Suc.prems(2) by (simp add: get_absolute_time_def Let_def)
  next
    case False
    then show ?thesis
      using Suc.prems(2) by (simp add: get_absolute_time_def Let_def)
  qed
qed

lemma brake_to_stop_ends:
  assumes tk: "clock_ticks env" and n: "nat (ms * 1000) < n"
  shows "\<exists>s'. brake_to_stop n env ms s = Some s' \<and> target (g_slew s') = 0
          \<and> initialized (g_slew s')"
proof -
  let ?s1 = "slew_set_target 0 400 env s"
  let ?s2 = "observe env ?s1"
  have "nat (clock ?s2 + ms * 1000 - clock ?s2) < n" using n by simp
  moreover have "initialized (g_slew ?s2)" by simp
  ultimately obtain s' where "brake_wait n env (clock ?s2) ms ?s2 = Some s'"
    and "target (g_slew s') = target (g_slew ?s2)" and "initialized (g_slew s')"
    using brake_wait_ends [OF tk, of "clock ?s2" ms ?s2 n] by blast
  then show ?thesis
    by (simp add: brake_to_stop_def get_absolute_time_def Let_def)
qed

subsection \<open>The exits of the move loop\<close>

lemma move_loop_abort:
  assumes tk: "clock_ticks env" and n: "300001 < n"
  shows "move_iter env p v s = StallAbort s1 \<Longrightarrow>
           \<exists>s'. move_loop n env p v s = Some (False, s') \<and> target (g_slew s') = 0"
    and "move_iter env p v s = TimeoutAbort s1 \<Longrightarrow>
           \<exists>s'. move_loop n env p v s = Some (False, s') \<and> target (g_slew s') = 0"
    and "move_iter env p v s = LoopExit s1 \<Longrightarrow>
           \<exists>s'. move_loop n env p v s = Some (True, s') \<and> target (g_slew s') = 0"
proof -
  obtain m where m: "n = Suc m" using n by (cases n) simp_all
  then have "nat (300 * 1000) < m" using n by simp
  then obtain s' where b: "brake_to_stop m env 300 s1 = Some s'" "target (g_slew s') = 0"
    using brake_to_stop_ends [OF tk, of 300 m s1] by blast
  show "move_iter env p v s = StallAbort s1 \<Longrightarrow>
           \<exists>s'. move_loop n env p v s = Some (False, s') \<and> target (g_slew s') = 0"
    using b by (simp add: m)
  show "move_iter env p v s = TimeoutAbort s1 \<Longrightarrow>
           \<exists>s'. move_loop n env p v s = Some (False, s') \<and> target (g_slew s') = 0"
    using b by (simp add: m)
  show "move_iter env p v s = LoopExit s1 \<Longrightarrow>
           \<exists>s'. move_loop n env p v s = Some (True, s') \<and> target (g_slew s') = 0"
    using b by (simp add: m)
qed











subsection \<open>Example runs\<close>

lemmas step_defs =
  read_fg_pulses_def get_absolute_time_def observe_def slew_update_initialized
  slew_set_target_def slew_init_def set_speed_def duty_level_def PWM_WRAP_def
  reset_fg_pulses_def set_direction_cw_def Let_def

lemma clock_ticks_no_pulses: "clock_ticks no_pulses"
  by (simp add: clock_ticks_def no_pulses_def)

lemma clock_ticks_slow_pulses: "clock_ticks slow_pulses"
  by (simp add: clock_ticks_def slow_pulses_def)


lemma setup_quiet:
  "move_setup no_pulses False 100 60000 50 500000 321 107 boot = (frame_06, vars_quiet, entry_quiet)"
  by (simp add: move_setup_def collapse_pad_def step_defs boot_def no_pulses_def
      frame_06_def vars_quiet_def entry_quiet_def)

lemma setup_slow:
  "move_setup slow_pulses False 100 60000 50 500000 321 107 boot = (frame_06, vars_slow, entry_slow)"
  by (simp add: move_setup_def collapse_pad_def step_defs boot_def slow_pulses_def
      frame_06_def vars_slow_def entry_slow_def)

lemma iter_quiet: "move_iter no_pulses frame_06 vars_quiet entry_quiet = StallAbort stalled_quiet"
  by (simp add: move_iter_def min_pulses_for_def step_defs no_pulses_def
      frame_06_def vars_quiet_def entry_quiet_def stalled_quiet_def)

lemma iter_slow: "move_iter slow_pulses frame_06 vars_slow entry_slow = TimeoutAbort timed_out_slow"
  by (simp add: move_iter_def timeout_and_speed_def min_pulses_for_def step_defs slow_pulses_def
      frame_06_def vars_slow_def entry_slow_def timed_out_slow_def)



lemma unwind_06:
  "unwind_payload_m n env (3 / 5) speed boot =
     (let (p, v, s6) = move_setup env False speed 60000 50 500000 321 107 boot
      in move_loop n env p v s6)"
proof -
  have "target_pulses_for_meters (3 / 5) = Some 321" and "target_pulses_for_meters (1 / 5) = Some 107"
    using target_pulses_06 target_pulses_02 by simp_all
  then show ?thesis
    by (simp add: unwind_payload_m_def move_meters_def)
qed

lemma setup_burst:
  "move_setup burst False 100 60000 50 500000 160 107 boot = (frame_03, vars_burst, entry_burst)"
  by (simp add: move_setup_def collapse_pad_def step_defs boot_def burst_def
      frame_03_def vars_burst_def entry_burst_def)

lemma iter_burst: "move_iter burst frame_03 vars_burst entry_burst = Continue vars_mid cruising_mid"
  by (simp add: move_iter_def timeout_and_speed_def desired_speed_def remaining_pulses_def
      min_pulses_for_def step_defs burst_def
      frame_03_def vars_burst_def entry_burst_def vars_mid_def cruising_mid_def)

subsection \<open>Stall and timeout\<close>





text \<open>
  Claim C3 as stated fails: \<open>move_meters\<close> returns a \<open>bool\<close>. The move of \<open>main\<close> on
  a dead feedback line leaves its loop by the stall exit, the same move on the crawling
  drum leaves by the timeout exit, and both calls return \<open>false\<close>.
\<close>

theorem stall_and_timeout_look_alike:
  "move_setup no_pulses False 100 60000 50 500000 321 107 boot = (frame_06, vars_quiet, entry_quiet) \<and>
   move_iter no_pulses frame_06 vars_quiet entry_quiet = StallAbort stalled_quiet \<and>
   move_setup slow_pulses False 100 60000 50 500000 321 107 boot = (frame_06, vars_slow, entry_slow) \<and>
   move_iter slow_pulses frame_06 vars_slow entry_slow = TimeoutAbort timed_out_slow \<and>
   map_option fst (unwind_payload_m 300002 no_pulses (6 / 10) 100 boot) = Some False \<and>
   map_option fst (unwind_payload_m 300002 slow_pulses (6 / 10) 100 boot) = Some False"
proof -
  have n: "300001 < (300002 :: nat)" by simp
  obtain sa where "move_loop 300002 no_pulses frame_06 vars_quiet entry_quiet = Some (False, sa)"
    using move_loop_abort(1) [OF clock_ticks_no_pulses n iter_quiet] by blast
  then have a: "map_option fst (unwind_payload_m 300002 no_pulses (6 / 10) 100 boot) = Some False"
    by (simp add: unwind_06 setup_quiet)
  obtain sb where "move_loop 300002 slow_pulses frame_06 vars_slow entry_slow = Some (False, sb)"
    using move_loop_abort(2) [OF clock_ticks_slow_pulses n iter_slow] by blast
  then have b: "map_option fst (unwind_payload_m 300002 slow_pulses (6 / 10) 100 boot) = Some False"
    by (simp add: unwind_06 setup_slow)
  show ?thesis
    using a b setup_quiet iter_quiet setup_slow iter_slow by simp
qed

text \<open>
  Claim C3, amended. What a pass of the loop decides is what the move returns: \<open>true\<close>
  when the counter has reached the target, \<open>false\<close> when the stall check aborts, and
  \<open>false\<close> again when the timeout check aborts; in every other case the loop goes on
  with the next pass. So failure can be told from success, and a stall cannot be told
  from a timeout.
\<close>

theorem move_result_is_bool:
  assumes "clock_ticks env" and "300001 < n"
  shows "case move_iter env p v s of
           LoopExit s1 \<Rightarrow> map_option fst (move_loop n env p v s) = Some True
         | StallAbort s1 \<Rightarrow> map_option fst (move_loop n env p v s) = Some False
         | TimeoutAbort s1 \<Rightarrow> map_option fst (move_loop n env p v s) = Some False
         | Continue v' s' \<Rightarrow> move_loop n env p v s = move_loop (n - 1) env p v' s'"
proof (cases "move_iter env p v s")
  case (LoopExit s1)
  from move_loop_abort(3) [OF assms this] show ?thesis by (auto simp add: LoopExit)
next
  case (StallAbort s1)
  from move_loop_abort(1) [OF assms this] show ?thesis by (auto simp add: StallAbort)
next
  case (TimeoutAbort s1)
  from move_loop_abort(2) [OF assms this] show ?thesis by (auto simp add: TimeoutAbort)
next
  case (Continue v' s')
  obtain m where "n = Suc m" using assms(2) by (cases n) simp_all
  then show ?thesis by (simp add: Continue)
qed

text \<open>
  Claim C3, instances: the stalled move and the timed out move.
\<close>

theorem move_result_is_bool_witness:
  "map_option fst (move_loop 300002 no_pulses frame_06 vars_quiet entry_quiet) = Some False \<and>
   map_option fst (move_loop 300002 slow_pulses frame_06 vars_slow entry_slow) = Some False"
  using move_result_is_bool [OF clock_ticks_no_pulses,
        where n = 300002 and p = frame_06 and v = vars_quiet and s = entry_quiet]
    move_result_is_bool [OF clock_ticks_slow_pulses,
        where n = 300002 and p = frame_06 and v = vars_slow and s = entry_slow]
  by (simp add: iter_quiet iter_slow)

subsection \<open>Padding of a short move\<close>

text \<open>
  The padding that \<open>move_meters\<close> hands to its loop, and the speed a pass of the loop
  asks for.
\<close>

lemma padding_rule:
  "move_setup env cw cruise tmo_ms pad_speed window_us tgt pad0 s = (p, v, s6) \<Longrightarrow>
     pad_pulses p = (if pad0 * 2 \<ge> tgt then tgt div 2 else pad0) \<and>
     padding_speed p = pad_speed \<and> cruise_percent p = cruise"
  by (auto simp add: move_setup_def collapse_pad_def read_fg_pulses_def get_absolute_time_def
      Let_def)

lemma speed_selection_rule:
  "desired_speed p now =
     (if now < pad_pulses p \<or> remaining_pulses now (target_pulses p) < pad_pulses p
      then padding_speed p else cruise_percent p)"
  by (simp add: desired_speed_def Let_def)

text \<open>
  With the padding at half of the target, the pass that reads a count of half the target
  finds neither the count nor the remaining distance below the padding.
\<close>

lemma collapsed_midpoint:
  assumes "pad_pulses p = target_pulses p div 2"
  shows "desired_speed p (target_pulses p div 2) = cruise_percent p"
proof -
  let ?t = "target_pulses p"
  have h: "unat (?t div 2) = unat ?t div 2" by (simp add: unat_div)
  have "unat (remaining_pulses (?t div 2) ?t) = unat ?t - unat ?t div 2"
    by (auto simp add: remaining_pulses_def word_less_nat_alt unat_sub_if' h)
  then have "\<not> remaining_pulses (?t div 2) ?t < ?t div 2"
    by (simp add: word_less_nat_alt h)
  then show ?thesis
    using assms by (simp add: desired_speed_def Let_def)
qed

text \<open>
  Claim C7 at a move of 0.3 meters with the default padding of 0.2 meters. The target is
  160 pulses and the padding 107, so the padding collapses to 80. In the pass that reads
  a count of 80, neither the count nor the remaining distance is below the padding: the
  desired speed is the cruise speed of 100 percent, not the padding speed of 50, and the
  pass sets the goal of the commander to 100.
\<close>

theorem short_move_cruises_mid_way:
  "target_pulses_for_meters (3 / 10) = Some 160 \<and>
   target_pulses_for_meters (2 / 10) = Some 107 \<and>
   collapse_pad 160 107 = 80 \<and>
   move_setup burst False 100 60000 50 500000 160 107 boot = (frame_03, vars_burst, entry_burst) \<and>
   desired_speed frame_03 80 = cruise_percent frame_03 \<and>
   cruise_percent frame_03 = 100 \<and> padding_speed frame_03 = 50 \<and>
   move_iter burst frame_03 vars_burst entry_burst = Continue vars_mid cruising_mid \<and>
   target (g_slew cruising_mid) = 100"
proof -
  have "desired_speed frame_03 80 = cruise_percent frame_03"
    by (simp add: desired_speed_def remaining_pulses_def frame_03_def)
  moreover have "collapse_pad 160 107 = 80" by (simp add: collapse_pad_def)
  ultimately show ?thesis
    using target_pulses_03 target_pulses_02 setup_burst iter_burst
    by (simp add: frame_03_def cruising_mid_def)
qed

subsection \<open>The hold loop and the nudge wait\<close>











end
